theory Spec2Isabelle
  imports Complex_Main "HOL-Library.Log_Nat"
begin

section \<open>The banking system of \<^verbatim>\<open>banking_system.py\<close>\<close>

text \<open>
  The embedding follows the two classes of the source. Python objects are mutable and
  shared: \<^verbatim>\<open>BankAccount.transfer\<close> writes to \<^verbatim>\<open>self\<close> and to \<^verbatim>\<open>target_account\<close>, which may
  be the same object. Objects therefore live in a store indexed by references, and every
  method takes the store and returns the store it leaves behind, together with its outcome:
  \<open>Inr v\<close> for \<^verbatim>\<open>return v\<close>, \<open>Inl e\<close> for \<^verbatim>\<open>raise e\<close>. The store is returned in both cases, so
  that what an operation did before it raised stays visible.

  Amounts are Python floats, as \<^verbatim>\<open>main()\<close> passes them (\<^verbatim>\<open>float(input(...))\<close>): sums and
  differences round to the nearest double, comparisons with \<^verbatim>\<open>nan\<close> are false. Every reading
  of \<^verbatim>\<open>datetime.now()\<close> is an argument of the operation that reads it. The statistics
  of \<^verbatim>\<open>get_summary_statistics\<close> are computed inside numpy and are not part of the model.
\<close>

subsection \<open>Floats\<close>

text \<open>
  A float is a finite number, an infinity or \<^verbatim>\<open>nan\<close>. A finite float is given by its value;
  \<^verbatim>\<open>0.0\<close> and \<^verbatim>\<open>-0.0\<close>, which are equal in every comparison the source makes, are both
  \<open>Finite 0\<close>. The integer \<^verbatim>\<open>0\<close> that is the default of \<^verbatim>\<open>initial_balance\<close> compares and
  adds as \<^verbatim>\<open>0.0\<close> does.
\<close>

datatype pyfloat = Finite rat | PosInf | NegInf | NaN

definition pow2 :: "int \<Rightarrow> rat" where
  "pow2 e = (if 0 \<le> e then 2 ^ nat e else 1 / 2 ^ nat (- e))"

text \<open>For \<open>0 < q\<close>, the exponent \<open>e\<close> with \<open>2\<^sup>e \<le> q < 2\<^sup>e\<^sup>+\<^sup>1\<close>.\<close>

definition floor_log2 :: "rat \<Rightarrow> int" where
  "floor_log2 q =
     (if 1 \<le> q then bitlen \<lfloor>q\<rfloor> - 1 else - bitlen (\<lceil>1 / q\<rceil> - 1))"

definition round_half_even :: "rat \<Rightarrow> int" where
  "round_half_even x =
     (let f = \<lfloor>x\<rfloor>; r = x - of_int f
      in if r < 1 / 2 then f else if 1 / 2 < r then f + 1 else if even f then f else f + 1)"

text \<open>
  Rounding to the nearest double, ties to even (IEEE 754 binary64): 53 significant bits,
  exponents from \<open>-1022\<close> (below it the spacing stays \<open>2\<^sup>-\<^sup>1\<^sup>0\<^sup>7\<^sup>4\<close>) to \<open>1023\<close>; a result
  that reaches \<open>2\<^sup>1\<^sup>0\<^sup>2\<^sup>4\<close> is an infinity.
\<close>

definition round_double :: "rat \<Rightarrow> pyfloat" where
  "round_double q =
     (if q = 0 then Finite 0
      else
        let e = max (floor_log2 \<bar>q\<bar>) (- 1022);
            ulp = pow2 (e - 52);
            n = round_half_even (q / ulp)
        in if 1024 \<le> e \<or> (e = 1023 \<and> \<bar>n\<bar> = 2 ^ 53)
           then (if 0 < q then PosInf else NegInf)
           else Finite (of_int n * ulp))"

text \<open>A value of the model that is a double: rounding leaves it as it is.\<close>

definition is_double :: "pyfloat \<Rightarrow> bool" where
  "is_double x = (case x of Finite q \<Rightarrow> round_double q = Finite q | _ \<Rightarrow> True)"

fun float_neg :: "pyfloat \<Rightarrow> pyfloat" where
  "float_neg (Finite a) = Finite (- a)"
| "float_neg PosInf = NegInf"
| "float_neg NegInf = PosInf"
| "float_neg NaN = NaN"

fun float_add :: "pyfloat \<Rightarrow> pyfloat \<Rightarrow> pyfloat" where
  "float_add NaN y = NaN"
| "float_add x NaN = NaN"
| "float_add (Finite a) (Finite b) = round_double (a + b)"
| "float_add PosInf NegInf = NaN"
| "float_add NegInf PosInf = NaN"
| "float_add PosInf y = PosInf"
| "float_add NegInf y = NegInf"
| "float_add (Finite a) y = y"

definition float_sub :: "pyfloat \<Rightarrow> pyfloat \<Rightarrow> pyfloat" where
  "float_sub x y = float_add x (float_neg y)"

fun float_lt :: "pyfloat \<Rightarrow> pyfloat \<Rightarrow> bool" where
  "float_lt NaN y = False"
| "float_lt x NaN = False"
| "float_lt (Finite a) (Finite b) = (a < b)"
| "float_lt x NegInf = False"
| "float_lt NegInf y = True"
| "float_lt PosInf y = False"
| "float_lt (Finite a) PosInf = True"

fun float_le :: "pyfloat \<Rightarrow> pyfloat \<Rightarrow> bool" where
  "float_le NaN y = False"
| "float_le x NaN = False"
| "float_le (Finite a) (Finite b) = (a \<le> b)"
| "float_le NegInf y = True"
| "float_le x PosInf = True"
| "float_le x NegInf = False"
| "float_le PosInf y = False"

text \<open>\<^verbatim>\<open>x > y\<close> on floats is \<^verbatim>\<open>y < x\<close>.\<close>

definition float_gt :: "pyfloat \<Rightarrow> pyfloat \<Rightarrow> bool" where
  "float_gt x y = float_lt y x"

subsection \<open>Time stamps\<close>

record datetime =
  dt_year :: nat
  dt_month :: nat
  dt_day :: nat
  dt_hour :: nat
  dt_minute :: nat
  dt_second :: nat
  dt_microsecond :: nat

definition digit_char :: "nat \<Rightarrow> char" where
  "digit_char d =
     (if d = 0 then CHR ''0'' else if d = 1 then CHR ''1'' else if d = 2 then CHR ''2''
      else if d = 3 then CHR ''3'' else if d = 4 then CHR ''4'' else if d = 5 then CHR ''5''
      else if d = 6 then CHR ''6'' else if d = 7 then CHR ''7'' else if d = 8 then CHR ''8''
      else CHR ''9'')"

text \<open>
  A field printed in decimal with leading zeros, in two digits (\<^verbatim>\<open>%m\<close>, \<^verbatim>\<open>%d\<close>, \<^verbatim>\<open>%H\<close>,
  \<^verbatim>\<open>%M\<close>, \<^verbatim>\<open>%S\<close>) or in four (\<^verbatim>\<open>%Y\<close>).
\<close>

definition two_digits :: "nat \<Rightarrow> string" where
  "two_digits n = [digit_char (n div 10 mod 10), digit_char (n mod 10)]"

definition four_digits :: "nat \<Rightarrow> string" where
  "four_digits n =
     [digit_char (n div 1000 mod 10), digit_char (n div 100 mod 10),
      digit_char (n div 10 mod 10), digit_char (n mod 10)]"

text \<open>\<^verbatim>\<open>strftime("%Y%m%d%H%M%S")\<close>: the microseconds are not printed.\<close>

definition strftime_YmdHMS :: "datetime \<Rightarrow> string" where
  "strftime_YmdHMS t =
     four_digits (dt_year t) @ two_digits (dt_month t) @ two_digits (dt_day t) @
     two_digits (dt_hour t) @ two_digits (dt_minute t) @ two_digits (dt_second t)"

subsection \<open>Accounts\<close>

datatype error = ValueError string

record transaction =
  tx_date :: datetime
  tx_type :: string
  tx_amount :: pyfloat
  balance_after :: pyfloat
  other_account :: "string option"

record BankAccount =
  account_holder_name :: string
  account_number :: string
  account_type :: string
  balance :: pyfloat
  transaction_history :: "transaction list"
  password :: "string option"

type_synonym ref = nat
type_synonym store = "ref \<Rightarrow> BankAccount"

text \<open>Python's truth value of an optional string: \<^verbatim>\<open>None\<close> and \<^verbatim>\<open>""\<close> are false.\<close>

definition truthy :: "string option \<Rightarrow> bool" where
  "truthy s = (case s of None \<Rightarrow> False | Some v \<Rightarrow> v \<noteq> [])"

text \<open>\<^verbatim>\<open>BankAccount._generate_account_number\<close>, from the clock reading \<open>now\<close>.\<close>

definition generate_account_number :: "datetime \<Rightarrow> string" where
  "generate_account_number now = ''ACC'' @ strftime_YmdHMS now"

text \<open>
  \<^verbatim>\<open>BankAccount._record_transaction\<close>: the record holds the balance at the time of the call;
  the key \<^verbatim>\<open>other_account\<close> is set only when the argument is true in Python's sense.
\<close>

definition record_transaction ::
  "BankAccount \<Rightarrow> string \<Rightarrow> pyfloat \<Rightarrow> string option \<Rightarrow> datetime \<Rightarrow> BankAccount" where
  "record_transaction self transaction_type amount other now =
     self\<lparr>transaction_history := transaction_history self @
       [\<lparr>tx_date = now, tx_type = transaction_type, tx_amount = amount,
         balance_after = balance self,
         other_account = (if truthy other then other else None)\<rparr>]\<rparr>"

text \<open>
  \<^verbatim>\<open>BankAccount.__init__\<close>: \<open>now_id\<close> is the clock reading of the account number, \<open>now_tx\<close>
  the one of the record of the initial deposit.
\<close>

definition BankAccount_init ::
  "string \<Rightarrow> string \<Rightarrow> pyfloat \<Rightarrow> string option \<Rightarrow> datetime \<Rightarrow> datetime \<Rightarrow> BankAccount" where
  "BankAccount_init holder_name acc_type initial_balance pw now_id now_tx =
     (let self = \<lparr>account_holder_name = holder_name,
                  account_number = generate_account_number now_id,
                  account_type = acc_type,
                  balance = initial_balance,
                  transaction_history = [],
                  password = pw\<rparr>
      in if float_gt initial_balance (Finite 0)
         then record_transaction self ''deposit'' initial_balance None now_tx
         else self)"

definition BankAccount_deposit ::
  "store \<Rightarrow> ref \<Rightarrow> pyfloat \<Rightarrow> datetime \<Rightarrow> (error + bool) \<times> store" where
  "BankAccount_deposit h self amount now =
     (if float_le amount (Finite 0)
      then (Inl (ValueError ''Deposit amount must be positive''), h)
      else
        let h1 = h(self := (h self)\<lparr>balance := float_add (balance (h self)) amount\<rparr>);
            h2 = h1(self := record_transaction (h1 self) ''deposit'' amount None now)
        in (Inr True, h2))"

definition BankAccount_withdraw ::
  "store \<Rightarrow> ref \<Rightarrow> pyfloat \<Rightarrow> datetime \<Rightarrow> (error + bool) \<times> store" where
  "BankAccount_withdraw h self amount now =
     (if float_le amount (Finite 0)
      then (Inl (ValueError ''Withdrawal amount must be positive''), h)
      else if float_gt amount (balance (h self))
      then (Inl (ValueError ''Insufficient funds''), h)
      else
        let h1 = h(self := (h self)\<lparr>balance := float_sub (balance (h self)) amount\<rparr>);
            h2 = h1(self := record_transaction (h1 self) ''withdrawal'' amount None now)
        in (Inr True, h2))"

text \<open>
  \<^verbatim>\<open>BankAccount.transfer\<close>: four writes in the source's order, each reading the store the
  one before left, so that \<open>target = self\<close> behaves as it does in Python.
\<close>

definition BankAccount_transfer ::
  "store \<Rightarrow> ref \<Rightarrow> pyfloat \<Rightarrow> ref \<Rightarrow> datetime \<Rightarrow> datetime \<Rightarrow> (error + bool) \<times> store" where
  "BankAccount_transfer h self amount target now_out now_in =
     (if float_le amount (Finite 0)
      then (Inl (ValueError ''Transfer amount must be positive''), h)
      else if float_gt amount (balance (h self))
      then (Inl (ValueError ''Insufficient funds for transfer''), h)
      else
        let h1 = h(self := (h self)\<lparr>balance := float_sub (balance (h self)) amount\<rparr>);
            h2 = h1(self := record_transaction (h1 self) ''transfer_out'' amount
                              (Some (account_number (h1 target))) now_out);
            h3 = h2(target := (h2 target)\<lparr>balance := float_add (balance (h2 target)) amount\<rparr>);
            h4 = h3(target := record_transaction (h3 target) ''transfer_in'' amount
                                (Some (account_number (h3 self))) now_in)
        in (Inr True, h4))"

subsection \<open>The banking system\<close>

text \<open>
  The world of a \<^verbatim>\<open>BankingSystem\<close>: its dictionary \<^verbatim>\<open>accounts\<close> from account numbers to
  account objects, the store of the objects, the next free reference, and the content of the
  data file (the pickled dictionary with its objects, once something was saved).
\<close>

record world =
  accounts :: "string \<rightharpoonup> ref"
  objects :: store
  next_ref :: ref
  data_file :: "((string \<rightharpoonup> ref) \<times> store) option"

definition save_data :: "world \<Rightarrow> world" where
  "save_data w = w\<lparr>data_file := Some (accounts w, objects w)\<rparr>"

definition create_account ::
  "world \<Rightarrow> string \<Rightarrow> string \<Rightarrow> pyfloat \<Rightarrow> string option \<Rightarrow> datetime \<Rightarrow> datetime
     \<Rightarrow> (error + string) \<times> world" where
  "create_account w holder_name acc_type initial_balance pw now_id now_tx =
     (if holder_name = [] \<or> acc_type = []
      then (Inl (ValueError ''Account holder name and type are required''), w)
      else if float_lt initial_balance (Finite 0)
      then (Inl (ValueError ''Initial balance cannot be negative''), w)
      else
        let account = BankAccount_init holder_name acc_type initial_balance pw now_id now_tx;
            r = next_ref w;
            w1 = w\<lparr>objects := (objects w)(r := account), next_ref := Suc r\<rparr>;
            w2 = w1\<lparr>accounts := (accounts w1)(account_number (objects w1 r) \<mapsto> r)\<rparr>;
            w3 = save_data w2
        in (Inr (account_number (objects w3 r)), w3))"

definition get_account :: "world \<Rightarrow> string \<Rightarrow> string option \<Rightarrow> error + ref" where
  "get_account w number pw =
     (case accounts w number of
        None \<Rightarrow> Inl (ValueError ''Account not found'')
      | Some account \<Rightarrow>
          if truthy (password (objects w account)) \<and> password (objects w account) \<noteq> pw
          then Inl (ValueError ''Invalid password'')
          else Inr account)"

definition BankingSystem_deposit ::
  "world \<Rightarrow> string \<Rightarrow> pyfloat \<Rightarrow> datetime \<Rightarrow> (error + bool) \<times> world" where
  "BankingSystem_deposit w number amount now =
     (case get_account w number None of
        Inl e \<Rightarrow> (Inl e, w)
      | Inr account \<Rightarrow>
          (case BankAccount_deposit (objects w) account amount now of
             (Inl e, h) \<Rightarrow> (Inl e, w\<lparr>objects := h\<rparr>)
           | (Inr result, h) \<Rightarrow> (Inr result, save_data (w\<lparr>objects := h\<rparr>))))"

definition BankingSystem_withdraw ::
  "world \<Rightarrow> string \<Rightarrow> pyfloat \<Rightarrow> datetime \<Rightarrow> (error + bool) \<times> world" where
  "BankingSystem_withdraw w number amount now =
     (case get_account w number None of
        Inl e \<Rightarrow> (Inl e, w)
      | Inr account \<Rightarrow>
          (case BankAccount_withdraw (objects w) account amount now of
             (Inl e, h) \<Rightarrow> (Inl e, w\<lparr>objects := h\<rparr>)
           | (Inr result, h) \<Rightarrow> (Inr result, save_data (w\<lparr>objects := h\<rparr>))))"

definition BankingSystem_transfer ::
  "world \<Rightarrow> string \<Rightarrow> string \<Rightarrow> pyfloat \<Rightarrow> datetime \<Rightarrow> datetime \<Rightarrow> (error + bool) \<times> world" where
  "BankingSystem_transfer w from_number to_number amount now_out now_in =
     (case accounts w from_number of
        None \<Rightarrow> (Inl (ValueError ''Source account not found''), w)
      | Some from_account \<Rightarrow>
          (case accounts w to_number of
             None \<Rightarrow> (Inl (ValueError ''Target account not found''), w)
           | Some to_account \<Rightarrow>
               (case BankAccount_transfer (objects w) from_account amount to_account
                       now_out now_in of
                  (Inl e, h) \<Rightarrow> (Inl e, w\<lparr>objects := h\<rparr>)
                | (Inr result, h) \<Rightarrow> (Inr result, save_data (w\<lparr>objects := h\<rparr>)))))"

subsection \<open>Sequences of calls\<close>

text \<open>
  The caller of the source is a menu loop that makes one call after the other and catches
  what a call raises, so the system goes on from the world the call left.
\<close>

datatype call =
    Create string string pyfloat "string option" datetime datetime
  | Deposit string pyfloat datetime
  | Withdraw string pyfloat datetime
  | Transfer string string pyfloat datetime datetime

fun perform :: "world \<Rightarrow> call \<Rightarrow> world" where
  "perform w (Create holder_name acc_type initial_balance pw now_id now_tx) =
     snd (create_account w holder_name acc_type initial_balance pw now_id now_tx)"
| "perform w (Deposit number amount now) = snd (BankingSystem_deposit w number amount now)"
| "perform w (Withdraw number amount now) = snd (BankingSystem_withdraw w number amount now)"
| "perform w (Transfer from_number to_number amount now_out now_in) =
     snd (BankingSystem_transfer w from_number to_number amount now_out now_in)"

fun run :: "world \<Rightarrow> call list \<Rightarrow> world" where
  "run w [] = w"
| "run w (c # cs) = run (perform w c) cs"

text \<open>
  Calls of \<^verbatim>\<open>deposit\<close> and \<^verbatim>\<open>withdraw\<close> on one account object, one after the other; the
  sequence ends at the first call that raises, as a script without handlers does.
\<close>

datatype account_call = DepositCall pyfloat datetime | WithdrawCall pyfloat datetime

fun account_perform :: "store \<Rightarrow> ref \<Rightarrow> account_call \<Rightarrow> (error + bool) \<times> store" where
  "account_perform h self (DepositCall amount now) = BankAccount_deposit h self amount now"
| "account_perform h self (WithdrawCall amount now) = BankAccount_withdraw h self amount now"

fun account_run :: "store \<Rightarrow> ref \<Rightarrow> account_call list \<Rightarrow> error + store" where
  "account_run h self [] = Inr h"
| "account_run h self (c # cs) =
     (case account_perform h self c of
        (Inl e, h') \<Rightarrow> Inl e
      | (Inr result, h') \<Rightarrow> account_run h' self cs)"

subsection \<open>What the specification says of balances and logs\<close>

text \<open>
  A record applied to a running total: deposits and incoming transfers add their amount,
  withdrawals and outgoing transfers subtract it, in the program's arithmetic. \<open>replay\<close>
  applies the records of a log in their order, starting from nothing.
\<close>

definition apply_record :: "pyfloat \<Rightarrow> transaction \<Rightarrow> pyfloat" where
  "apply_record sofar t =
     (if tx_type t \<in> set [''deposit'', ''transfer_in''] then float_add sofar (tx_amount t)
      else if tx_type t \<in> set [''withdrawal'', ''transfer_out'']
      then float_sub sofar (tx_amount t)
      else sofar)"

definition replay :: "transaction list \<Rightarrow> pyfloat" where
  "replay history = foldl apply_record (Finite 0) history"

definition consistent :: "BankAccount \<Rightarrow> bool" where
  "consistent a = (balance a = replay (transaction_history a))"

text \<open>Every account of the dictionary has the balance that its log replays to.\<close>

definition ledger_consistent :: "world \<Rightarrow> bool" where
  "ledger_consistent w = (\<forall>number r. accounts w number = Some r \<longrightarrow> consistent (objects w r))"

text \<open>An account is opened with an initial balance that is a double and not \<^verbatim>\<open>nan\<close>.\<close>

fun opens_with_number :: "call \<Rightarrow> bool" where
  "opens_with_number (Create holder_name acc_type initial_balance pw now_id now_tx) =
     (initial_balance \<noteq> NaN \<and> is_double initial_balance)"
| "opens_with_number c = True"

text \<open>
  A starting balance with the deposits added and the withdrawals subtracted one after the
  other, in the order of the calls.
\<close>

fun apply_call :: "pyfloat \<Rightarrow> account_call \<Rightarrow> pyfloat" where
  "apply_call sofar (DepositCall amount now) = float_add sofar amount"
| "apply_call sofar (WithdrawCall amount now) = float_sub sofar amount"

definition applied :: "pyfloat \<Rightarrow> account_call list \<Rightarrow> pyfloat" where
  "applied start cs = foldl apply_call start cs"

text \<open>The sum of the deposited amounts and the sum of the withdrawn amounts of a sequence.\<close>

fun deposited :: "account_call list \<Rightarrow> pyfloat" where
  "deposited [] = Finite 0"
| "deposited (DepositCall amount now # cs) = float_add amount (deposited cs)"
| "deposited (WithdrawCall amount now # cs) = deposited cs"

fun withdrawn :: "account_call list \<Rightarrow> pyfloat" where
  "withdrawn [] = Finite 0"
| "withdrawn (DepositCall amount now # cs) = withdrawn cs"
| "withdrawn (WithdrawCall amount now # cs) = float_add amount (withdrawn cs)"


subsection \<open>Concrete inputs\<close>

text \<open>
  Three clock readings: \<open>t0\<close> and \<open>t1\<close> are different instants of the same second, \<open>t2\<close>
  is in the next second.
\<close>

definition t0 :: datetime where
  "t0 = \<lparr>dt_year = 2024, dt_month = 5, dt_day = 17, dt_hour = 9, dt_minute = 30,
         dt_second = 12, dt_microsecond = 100\<rparr>"

definition t1 :: datetime where
  "t1 = \<lparr>dt_year = 2024, dt_month = 5, dt_day = 17, dt_hour = 9, dt_minute = 30,
         dt_second = 12, dt_microsecond = 900\<rparr>"

definition t2 :: datetime where
  "t2 = \<lparr>dt_year = 2024, dt_month = 5, dt_day = 17, dt_hour = 9, dt_minute = 30,
         dt_second = 13, dt_microsecond = 5\<rparr>"

text \<open>
  A system started without a data file: \<^verbatim>\<open>_load_data\<close> returns the empty dictionary. No
  object is allocated yet; \<open>unallocated\<close> fills the store.
\<close>

definition unallocated :: BankAccount where
  "unallocated = \<lparr>account_holder_name = [], account_number = [], account_type = [],
                   balance = Finite 0, transaction_history = [], password = None\<rparr>"

definition fresh_system :: world where
  "fresh_system = \<lparr>accounts = Map.empty, objects = (\<lambda>r. unallocated), next_ref = 0,
                    data_file = None\<rparr>"

text \<open>
  Worlds reached through the system's own calls: Alice opens an account with 1000 and no
  password; then Bob opens one, a second later, with nothing and the password \<open>secret\<close>.
\<close>

definition alice_world :: world where
  "alice_world = snd (create_account fresh_system ''Alice'' ''savings'' (Finite 1000) None t0 t0)"

definition alice_bob_world :: world where
  "alice_bob_world =
     snd (create_account alice_world ''Bob'' ''current'' (Finite 0) (Some ''secret'') t2 t2)"

text \<open>Alice then transfers 300 to Bob, whose account has the password.\<close>

definition funded_world :: world where
  "funded_world =
     snd (BankingSystem_transfer alice_bob_world ''ACC20240517093012'' ''ACC20240517093013''
            (Finite 300) t2 t2)"

text \<open>
  The end-to-end scenario: an account opened with 1000, a deposit of 500, a withdrawal of
  200, a second account opened with nothing at the clock reading \<open>now_b\<close>, and a transfer
  of 300 from the first number to the second.
\<close>

definition after_withdrawal :: world where
  "after_withdrawal =
     run alice_world
       [Deposit ''ACC20240517093012'' (Finite 500) t0,
        Withdraw ''ACC20240517093012'' (Finite 200) t0]"

definition second_account :: "datetime \<Rightarrow> (error + string) \<times> world" where
  "second_account now_b = create_account after_withdrawal ''Bob'' ''current'' (Finite 0) None now_b now_b"

definition end_to_end :: "datetime \<Rightarrow> (error + bool) \<times> world" where
  "end_to_end now_b =
     BankingSystem_transfer (snd (second_account now_b)) ''ACC20240517093012''
       (generate_account_number now_b) (Finite 300) now_b now_b"

text \<open>The scenario of Alice and Bob as one sequence of calls.\<close>

definition scenario_calls :: "call list" where
  "scenario_calls =
     [Create ''Alice'' ''savings'' (Finite 1000) None t0 t0,
      Deposit ''ACC20240517093012'' (Finite 500) t0,
      Withdraw ''ACC20240517093012'' (Finite 200) t1,
      Create ''Bob'' ''current'' (Finite 0) (Some ''secret'') t2 t2,
      Transfer ''ACC20240517093012'' ''ACC20240517093013'' (Finite 300) t2 t2,
      Withdraw ''ACC20240517093012'' (Finite 5000) t2]"

text \<open>
  An account opened with \<^verbatim>\<open>1e16\<close>, where the doubles are 2 apart, and two deposits of 1.
\<close>

definition large_world :: world where
  "large_world =
     snd (create_account fresh_system ''Alice'' ''savings'' (Finite 10000000000000000) None
            t0 t0)"

definition unit_deposits :: "account_call list" where
  "unit_deposits = [DepositCall (Finite 1) t1, DepositCall (Finite 1) t2]"

text \<open>An account opened with \<^verbatim>\<open>nan\<close>, as \<^verbatim>\<open>float('nan')\<close> gives it.\<close>

definition nan_world :: world where
  "nan_world = snd (create_account fresh_system ''Alice'' ''savings'' NaN None t0 t0)"

section \<open>Properties\<close>

subsection \<open>Comparisons of floats\<close>

lemma float_lt_zero_not_le: "float_lt (Finite 0) x \<Longrightarrow> \<not> float_le x (Finite 0)"
  by (cases x) simp_all

lemma float_le_zero_not_lt: "float_le (Finite 0) x \<Longrightarrow> \<not> float_lt x (Finite 0)"
  by (cases x) simp_all

lemma float_le_not_gt: "float_le x y \<Longrightarrow> \<not> float_gt x y"
  by (cases x; cases y) (simp_all add: float_gt_def)

lemma float_lt_not_NaN: "float_lt x y \<Longrightarrow> x \<noteq> NaN \<and> y \<noteq> NaN"
  by (cases x; cases y) simp_all

lemma float_add_zero_double:
  "is_double x \<Longrightarrow> float_add (Finite 0) x = x"
  by (cases x) (simp_all add: is_double_def)

subsection \<open>Evaluating the concrete inputs\<close>

lemma round_double_values:
  "round_double 0 = Finite 0"
  "round_double 1 = Finite 1"
  "round_double 2 = Finite 2"
  "round_double 300 = Finite 300"
  "round_double 700 = Finite 700"
  "round_double 1000 = Finite 1000"
  "round_double 1300 = Finite 1300"
  "round_double 1350 = Finite 1350"
  "round_double 1500 = Finite 1500"
  by code_simp+

lemma round_double_large:
  "round_double 10000000000000000 = Finite 10000000000000000"
  "round_double 10000000000000001 = Finite 10000000000000000"
  "round_double 10000000000000002 = Finite 10000000000000002"
  by code_simp+

lemma account_number_t0: "generate_account_number t0 = ''ACC20240517093012''"
  by (simp add: generate_account_number_def strftime_YmdHMS_def t0_def digit_char_def
      two_digits_def four_digits_def)

lemma account_number_t1: "generate_account_number t1 = ''ACC20240517093012''"
  by (simp add: generate_account_number_def strftime_YmdHMS_def t1_def digit_char_def
      two_digits_def four_digits_def)

lemma account_number_t2: "generate_account_number t2 = ''ACC20240517093013''"
  by (simp add: generate_account_number_def strftime_YmdHMS_def t2_def digit_char_def
      two_digits_def four_digits_def)

lemmas eval_create =
  create_account_def fresh_system_def Let_def BankAccount_init_def record_transaction_def
  save_data_def truthy_def float_gt_def account_number_t0 account_number_t1 account_number_t2

lemmas eval_calls =
  BankingSystem_deposit_def BankingSystem_withdraw_def BankingSystem_transfer_def
  BankAccount_deposit_def BankAccount_withdraw_def BankAccount_transfer_def get_account_def
  float_gt_def float_sub_def round_double_values

lemma alice_world_accounts: "accounts alice_world = [''ACC20240517093012'' \<mapsto> 0]"
  by (simp add: alice_world_def eval_create)

lemma alice_world_next_ref: "next_ref alice_world = 1"
  by (simp add: alice_world_def eval_create)

lemma alice_world_object:
  "objects alice_world 0 =
     \<lparr>account_holder_name = ''Alice'', account_number = ''ACC20240517093012'',
      account_type = ''savings'', balance = Finite 1000,
      transaction_history = [\<lparr>tx_date = t0, tx_type = ''deposit'', tx_amount = Finite 1000,
                               balance_after = Finite 1000, other_account = None\<rparr>],
      password = None\<rparr>"
  by (simp add: alice_world_def eval_create)

lemma alice_bob_world_accounts:
  "accounts alice_bob_world = [''ACC20240517093012'' \<mapsto> 0, ''ACC20240517093013'' \<mapsto> 1]"
  by (simp add: alice_bob_world_def alice_world_def eval_create)

lemma alice_bob_world_alice: "objects alice_bob_world 0 = objects alice_world 0"
  by (simp add: alice_bob_world_def alice_world_def eval_create)

lemma alice_bob_world_bob:
  "objects alice_bob_world (Suc 0) =
     \<lparr>account_holder_name = ''Bob'', account_number = ''ACC20240517093013'',
      account_type = ''current'', balance = Finite 0, transaction_history = [],
      password = Some ''secret''\<rparr>"
  by (simp add: alice_bob_world_def alice_world_def eval_create)

lemma funded_world_accounts:
  "accounts funded_world = [''ACC20240517093012'' \<mapsto> 0, ''ACC20240517093013'' \<mapsto> 1]"
  by (simp add: funded_world_def eval_calls alice_bob_world_accounts alice_bob_world_alice
      alice_world_object save_data_def Let_def)

lemma funded_world_bob:
  "objects funded_world (Suc 0) =
     \<lparr>account_holder_name = ''Bob'', account_number = ''ACC20240517093013'',
      account_type = ''current'', balance = Finite 300,
      transaction_history = [\<lparr>tx_date = t2, tx_type = ''transfer_in'', tx_amount = Finite 300,
                               balance_after = Finite 300,
                               other_account = Some ''ACC20240517093012''\<rparr>],
      password = Some ''secret''\<rparr>"
  by (simp add: funded_world_def eval_calls alice_bob_world_accounts alice_bob_world_alice
      alice_bob_world_bob alice_world_object save_data_def Let_def record_transaction_def
      truthy_def)

lemma funded_world_alice:
  "objects funded_world 0 =
     \<lparr>account_holder_name = ''Alice'', account_number = ''ACC20240517093012'',
      account_type = ''savings'', balance = Finite 700,
      transaction_history =
        [\<lparr>tx_date = t0, tx_type = ''deposit'', tx_amount = Finite 1000,
          balance_after = Finite 1000, other_account = None\<rparr>,
         \<lparr>tx_date = t2, tx_type = ''transfer_out'', tx_amount = Finite 300,
          balance_after = Finite 700, other_account = Some ''ACC20240517093013''\<rparr>],
      password = None\<rparr>"
  by (simp add: funded_world_def eval_calls alice_bob_world_accounts alice_bob_world_alice
      alice_bob_world_bob alice_world_object save_data_def Let_def record_transaction_def
      truthy_def)

subsection \<open>Rejected amounts\<close>

text \<open>
  C4. A deposit, a withdrawal or a transfer of an amount that is 0 or below raises the
  \<^verbatim>\<open>ValueError\<close> saying that the amount must be positive (the specification's
  \<open>InvalidAmount\<close>); a withdrawal or a transfer of a positive amount above the balance
  raises the \<^verbatim>\<open>ValueError\<close> of insufficient funds (\<open>InsufficientFunds\<close>). In each case
  the store is the one before the call: no balance and no log has changed.
\<close>

theorem rejected_amount_leaves_state:
  "(float_le amount (Finite 0) \<longrightarrow>
      BankAccount_deposit h a amount now =
        (Inl (ValueError ''Deposit amount must be positive''), h) \<and>
      BankAccount_withdraw h a amount now =
        (Inl (ValueError ''Withdrawal amount must be positive''), h) \<and>
      BankAccount_transfer h a amount b now now' =
        (Inl (ValueError ''Transfer amount must be positive''), h)) \<and>
   (float_lt (Finite 0) amount \<and> float_lt (balance (h a)) amount \<longrightarrow>
      BankAccount_withdraw h a amount now = (Inl (ValueError ''Insufficient funds''), h) \<and>
      BankAccount_transfer h a amount b now now' =
        (Inl (ValueError ''Insufficient funds for transfer''), h))"
  by (simp add: BankAccount_deposit_def BankAccount_withdraw_def BankAccount_transfer_def
      float_gt_def float_lt_zero_not_le)

theorem rejected_amount_leaves_state_witness:
  "float_le (Finite (- 5)) (Finite 0) \<and>
   BankAccount_deposit (objects alice_bob_world) 0 (Finite (- 5)) t2 =
     (Inl (ValueError ''Deposit amount must be positive''), objects alice_bob_world) \<and>
   BankAccount_withdraw (objects alice_bob_world) 0 (Finite (- 5)) t2 =
     (Inl (ValueError ''Withdrawal amount must be positive''), objects alice_bob_world) \<and>
   BankAccount_transfer (objects alice_bob_world) 0 (Finite (- 5)) 1 t2 t2 =
     (Inl (ValueError ''Transfer amount must be positive''), objects alice_bob_world) \<and>
   float_lt (Finite 0) (Finite 2000) \<and>
   float_lt (balance (objects alice_bob_world 0)) (Finite 2000) \<and>
   BankAccount_withdraw (objects alice_bob_world) 0 (Finite 2000) t2 =
     (Inl (ValueError ''Insufficient funds''), objects alice_bob_world) \<and>
   BankAccount_transfer (objects alice_bob_world) 0 (Finite 2000) 1 t2 t2 =
     (Inl (ValueError ''Insufficient funds for transfer''), objects alice_bob_world)"
  using rejected_amount_leaves_state [of "Finite (- 5)" "objects alice_bob_world" 0 t2 1 t2]
    rejected_amount_leaves_state [of "Finite 2000" "objects alice_bob_world" 0 t2 1 t2]
  by (simp add: alice_bob_world_alice alice_world_object)

subsection \<open>Account numbers\<close>

text \<open>
  C5. Two accounts opened at different instants of the same second get the same account
  number, and the second account takes the place of the first in the dictionary: the
  system then holds one account, Bob's.
\<close>

theorem same_second_same_account_number:
  "t0 \<noteq> t1 \<and>
   fst (create_account fresh_system ''Alice'' ''savings'' (Finite 1000) None t0 t0) =
     Inr ''ACC20240517093012'' \<and>
   fst (create_account alice_world ''Bob'' ''current'' (Finite 0) None t1 t1) =
     Inr ''ACC20240517093012'' \<and>
   accounts (snd (create_account alice_world ''Bob'' ''current'' (Finite 0) None t1 t1)) =
     [''ACC20240517093012'' \<mapsto> 1] \<and>
   account_holder_name
     (objects (snd (create_account alice_world ''Bob'' ''current'' (Finite 0) None t1 t1)) 1) = ''Bob''"
  by (simp add: alice_world_def eval_create) (simp add: t0_def t1_def)

subsection \<open>Looking an account up\<close>

lemma get_account_unknown:
  "accounts w number = None \<Longrightarrow> get_account w number pw = Inl (ValueError ''Account not found'')"
  by (simp add: get_account_def)

lemma get_account_mismatch:
  "accounts w number = Some r \<Longrightarrow> password (objects w r) = Some p \<Longrightarrow> p \<noteq> [] \<Longrightarrow>
   pw \<noteq> Some p \<Longrightarrow> get_account w number pw = Inl (ValueError ''Invalid password'')"
  by (simp add: get_account_def truthy_def)

lemma get_account_match:
  "accounts w number = Some r \<Longrightarrow> password (objects w r) = Some p \<Longrightarrow>
   get_account w number (Some p) = Inr r"
  by (simp add: get_account_def truthy_def)

lemma get_account_open:
  "accounts w number = Some r \<Longrightarrow> \<not> truthy (password (objects w r)) \<Longrightarrow>
   get_account w number pw = Inr r"
  by (simp add: get_account_def)

text \<open>
  C6, as the code has it. \<^verbatim>\<open>get_account\<close> raises the \<^verbatim>\<open>ValueError\<close> of an account not found
  (the specification's \<open>NotFound\<close>) when the number is not in the dictionary. When the
  account has a password that is not empty, it raises the \<^verbatim>\<open>ValueError\<close> of an invalid
  password (\<open>Unauthorized\<close>) for every other password and for none, and returns the account
  for that password. When the password of the account is \<^verbatim>\<open>None\<close> or the empty string, it
  returns the account whatever password is given.
\<close>

theorem get_account_outcomes:
  "(accounts w number = None \<longrightarrow>
      get_account w number pw = Inl (ValueError ''Account not found'')) \<and>
   (accounts w number = Some r \<and> password (objects w r) = Some p \<and> p \<noteq> [] \<and> pw \<noteq> Some p \<longrightarrow>
      get_account w number pw = Inl (ValueError ''Invalid password'')) \<and>
   (accounts w number = Some r \<and> password (objects w r) = Some p \<and> p \<noteq> [] \<longrightarrow>
      get_account w number (Some p) = Inr r) \<and>
   (accounts w number = Some r \<and>
      (password (objects w r) = None \<or> password (objects w r) = Some []) \<longrightarrow>
      get_account w number pw = Inr r)"
proof (intro conjI impI)
  assume "accounts w number = None"
  then show "get_account w number pw = Inl (ValueError ''Account not found'')"
    by (rule get_account_unknown)
next
  assume "accounts w number = Some r \<and> password (objects w r) = Some p \<and> p \<noteq> [] \<and> pw \<noteq> Some p"
  then show "get_account w number pw = Inl (ValueError ''Invalid password'')"
    by (simp add: get_account_mismatch)
next
  assume "accounts w number = Some r \<and> password (objects w r) = Some p \<and> p \<noteq> []"
  then show "get_account w number (Some p) = Inr r"
    by (simp add: get_account_match)
next
  assume a: "accounts w number = Some r \<and>
    (password (objects w r) = None \<or> password (objects w r) = Some [])"
  then have "\<not> truthy (password (objects w r))"
    by (auto simp add: truthy_def)
  with a show "get_account w number pw = Inr r"
    by (simp add: get_account_open)
qed

theorem get_account_outcomes_witness:
  "accounts alice_bob_world ''ACC19990101000000'' = None \<and>
   get_account alice_bob_world ''ACC19990101000000'' None = Inl (ValueError ''Account not found'') \<and>
   accounts alice_bob_world ''ACC20240517093013'' = Some 1 \<and>
   password (objects alice_bob_world 1) = Some ''secret'' \<and>
   get_account alice_bob_world ''ACC20240517093013'' (Some ''guess'') =
     Inl (ValueError ''Invalid password'') \<and>
   get_account alice_bob_world ''ACC20240517093013'' None =
     Inl (ValueError ''Invalid password'') \<and>
   get_account alice_bob_world ''ACC20240517093013'' (Some ''secret'') = Inr 1 \<and>
   accounts alice_bob_world ''ACC20240517093012'' = Some 0 \<and>
   password (objects alice_bob_world 0) = None \<and>
   get_account alice_bob_world ''ACC20240517093012'' (Some ''guess'') = Inr 0 \<and>
   get_account alice_bob_world ''ACC20240517093012'' None = Inr 0"
  using
    get_account_outcomes [of alice_bob_world "''ACC19990101000000''" None 0 "''secret''"]
    get_account_outcomes [of alice_bob_world "''ACC20240517093013''" "Some ''guess''" 1 "''secret''"]
    get_account_outcomes [of alice_bob_world "''ACC20240517093013''" None 1 "''secret''"]
    get_account_outcomes [of alice_bob_world "''ACC20240517093012''" "Some ''guess''" 0 "''secret''"]
    get_account_outcomes [of alice_bob_world "''ACC20240517093012''" None 0 "''secret''"]
  by (simp add: alice_bob_world_accounts alice_bob_world_alice alice_bob_world_bob
      alice_world_object)

text \<open>
  Carol opens an account and sets the empty string as its password. The account is
  returned for a password that does not match.
\<close>

theorem empty_password_not_enforced:
  "fst (create_account fresh_system ''Carol'' ''savings'' (Finite 0) (Some '''') t0 t0) =
     Inr ''ACC20240517093012'' \<and>
   password (objects (snd (create_account fresh_system ''Carol'' ''savings'' (Finite 0) (Some '''') t0 t0)) 0) =
     Some '''' \<and>
   Some ''guess'' \<noteq> Some '''' \<and>
   get_account (snd (create_account fresh_system ''Carol'' ''savings'' (Finite 0) (Some '''') t0 t0))
     ''ACC20240517093012'' (Some ''guess'') = Inr 0"
  by (simp add: get_account_def eval_create)

subsection \<open>Deposits and withdrawals through the system\<close>

text \<open>
  C3. Bob's account is in the dictionary, has the password \<open>secret\<close> and a balance of 300.
  A deposit of 50 and a withdrawal of 100 through the system both raise the \<^verbatim>\<open>ValueError\<close>
  of an invalid password and change nothing: \<^verbatim>\<open>deposit\<close> and \<^verbatim>\<open>withdraw\<close> resolve the
  account with \<^verbatim>\<open>get_account(account_number)\<close>, which compares the password with \<^verbatim>\<open>None\<close>.
\<close>

theorem deposit_withdraw_check_password:
  "accounts funded_world ''ACC20240517093013'' = Some 1 \<and>
   password (objects funded_world 1) = Some ''secret'' \<and>
   balance (objects funded_world 1) = Finite 300 \<and>
   BankingSystem_deposit funded_world ''ACC20240517093013'' (Finite 50) t2 =
     (Inl (ValueError ''Invalid password''), funded_world) \<and>
   BankingSystem_withdraw funded_world ''ACC20240517093013'' (Finite 100) t2 =
     (Inl (ValueError ''Invalid password''), funded_world)"
  by (simp add: funded_world_accounts funded_world_bob BankingSystem_deposit_def
      BankingSystem_withdraw_def get_account_def truthy_def)

text \<open>
  The same for every account whose password is true in Python's sense, and the calls
  succeed on the other accounts.
\<close>

lemma deposit_withdraw_with_password:
  assumes "accounts w number = Some r" and "truthy (password (objects w r))"
  shows "BankingSystem_deposit w number amount now = (Inl (ValueError ''Invalid password''), w)"
    and "BankingSystem_withdraw w number amount now = (Inl (ValueError ''Invalid password''), w)"
  using assms
  by (auto simp add: BankingSystem_deposit_def BankingSystem_withdraw_def get_account_def
      truthy_def split: option.splits)

lemma deposit_without_password:
  assumes "accounts w number = Some r" and "\<not> truthy (password (objects w r))"
    and "float_lt (Finite 0) amount"
  shows "fst (BankingSystem_deposit w number amount now) = Inr True"
  using assms
  by (simp add: BankingSystem_deposit_def get_account_def BankAccount_deposit_def Let_def
      float_lt_zero_not_le)

lemma withdraw_without_password:
  assumes "accounts w number = Some r" and "\<not> truthy (password (objects w r))"
    and "float_lt (Finite 0) amount" and "float_le amount (balance (objects w r))"
  shows "fst (BankingSystem_withdraw w number amount now) = Inr True"
  using assms
  by (simp add: BankingSystem_withdraw_def get_account_def BankAccount_withdraw_def Let_def
      float_lt_zero_not_le float_le_not_gt)

subsection \<open>Transfers and passwords\<close>

text \<open>
  C10. A transfer through the system between two numbers of the dictionary, of a positive
  amount that the source's balance covers, returns \<^verbatim>\<open>True\<close>, whatever the passwords of
  the two accounts are; and no call of the system's \<^verbatim>\<open>transfer\<close> raises the error of an
  invalid password.
\<close>

theorem transfer_checks_no_password:
  "(accounts w from_number = Some a \<and> accounts w to_number = Some b \<and>
    float_lt (Finite 0) amount \<and> float_le amount (balance (objects w a)) \<longrightarrow>
      fst (BankingSystem_transfer w from_number to_number amount now_out now_in) = Inr True) \<and>
   fst (BankingSystem_transfer w from_number to_number amount now_out now_in) \<noteq>
     Inl (ValueError ''Invalid password'')"
  by (simp add: BankingSystem_transfer_def BankAccount_transfer_def Let_def
      float_lt_zero_not_le float_le_not_gt split: option.splits)

theorem transfer_checks_no_password_witness:
  "accounts alice_bob_world ''ACC20240517093012'' = Some 0 \<and>
   accounts alice_bob_world ''ACC20240517093013'' = Some 1 \<and>
   password (objects alice_bob_world 1) = Some ''secret'' \<and>
   float_lt (Finite 0) (Finite 300) \<and>
   float_le (Finite 300) (balance (objects alice_bob_world 0)) \<and>
   fst (BankingSystem_transfer alice_bob_world ''ACC20240517093012'' ''ACC20240517093013''
          (Finite 300) t2 t2) = Inr True \<and>
   accounts funded_world ''ACC20240517093013'' = Some 1 \<and>
   accounts funded_world ''ACC20240517093012'' = Some 0 \<and>
   password (objects funded_world 1) = Some ''secret'' \<and>
   float_lt (Finite 0) (Finite 100) \<and>
   float_le (Finite 100) (balance (objects funded_world 1)) \<and>
   fst (BankingSystem_transfer funded_world ''ACC20240517093013'' ''ACC20240517093012''
          (Finite 100) t2 t2) = Inr True"
  using
    transfer_checks_no_password [of alice_bob_world "''ACC20240517093012''" 0
      "''ACC20240517093013''" 1 "Finite 300" t2 t2]
    transfer_checks_no_password [of funded_world "''ACC20240517093013''" 1
      "''ACC20240517093012''" 0 "Finite 100" t2 t2]
  by (simp add: alice_bob_world_accounts alice_bob_world_alice alice_bob_world_bob
      alice_world_object funded_world_accounts funded_world_bob)

subsection \<open>The end-to-end scenario\<close>

lemma after_withdrawal_accounts:
  "accounts after_withdrawal = [''ACC20240517093012'' \<mapsto> 0]"
  by (simp add: after_withdrawal_def eval_calls alice_world_accounts alice_world_object
      save_data_def Let_def record_transaction_def truthy_def)

lemma after_withdrawal_next_ref: "next_ref after_withdrawal = 1"
  by (simp add: after_withdrawal_def eval_calls alice_world_accounts alice_world_object
      alice_world_next_ref save_data_def Let_def record_transaction_def truthy_def)

lemma after_withdrawal_object:
  "objects after_withdrawal 0 =
     \<lparr>account_holder_name = ''Alice'', account_number = ''ACC20240517093012'',
      account_type = ''savings'', balance = Finite 1300,
      transaction_history =
        [\<lparr>tx_date = t0, tx_type = ''deposit'', tx_amount = Finite 1000,
          balance_after = Finite 1000,
          other_account = None\<rparr>,
         \<lparr>tx_date = t0, tx_type = ''deposit'', tx_amount = Finite 500,
          balance_after = Finite 1500,
          other_account = None\<rparr>,
         \<lparr>tx_date = t0, tx_type = ''withdrawal'', tx_amount = Finite 200,
          balance_after = Finite 1300,
          other_account = None\<rparr>],
      password = None\<rparr>"
  by (simp add: after_withdrawal_def eval_calls alice_world_accounts alice_world_object
      save_data_def Let_def record_transaction_def truthy_def)

lemma deposit_and_withdrawal_succeed:
  "fst (BankingSystem_deposit alice_world ''ACC20240517093012'' (Finite 500) t0) = Inr True \<and>
   fst (BankingSystem_withdraw
          (snd (BankingSystem_deposit alice_world ''ACC20240517093012'' (Finite 500) t0))
          ''ACC20240517093012'' (Finite 200) t0) = Inr True"
  by (simp add: eval_calls alice_world_accounts alice_world_object
      save_data_def Let_def record_transaction_def truthy_def)

text \<open>
  C9. The first account is opened at \<open>t0\<close> with 1000; 500 are deposited and 200 withdrawn,
  both calls returning \<^verbatim>\<open>True\<close>. The second account is opened at \<open>t1\<close>, in the same
  second: it gets the number of the first and replaces it in the dictionary. The transfer
  of 300 then goes from the second account to itself and raises the \<^verbatim>\<open>ValueError\<close> of
  insufficient funds. The only account of the system is the second, with a balance of 0
  and an empty log.
\<close>

theorem end_to_end_same_second:
  "fst (create_account fresh_system ''Alice'' ''savings'' (Finite 1000) None t0 t0) =
     Inr ''ACC20240517093012'' \<and>
   fst (BankingSystem_deposit alice_world ''ACC20240517093012'' (Finite 500) t0) = Inr True \<and>
   fst (BankingSystem_withdraw
          (snd (BankingSystem_deposit alice_world ''ACC20240517093012'' (Finite 500) t0))
          ''ACC20240517093012'' (Finite 200) t0) = Inr True \<and>
   fst (second_account t1) = Inr ''ACC20240517093012'' \<and>
   fst (end_to_end t1) = Inl (ValueError ''Insufficient funds for transfer'') \<and>
   accounts (snd (end_to_end t1)) = [''ACC20240517093012'' \<mapsto> 1] \<and>
   account_holder_name (objects (snd (end_to_end t1)) 1) = ''Bob'' \<and>
   balance (objects (snd (end_to_end t1)) 1) = Finite 0 \<and>
   transaction_history (objects (snd (end_to_end t1)) 1) = []"
  by (simp add: end_to_end_def second_account_def eval_create eval_calls
      after_withdrawal_accounts after_withdrawal_next_ref after_withdrawal_object
      alice_world_accounts alice_world_object)

text \<open>
  When the second account is opened in the next second, the scenario ends as the
  specification says: 1000 on the first account, 300 on the second, and four records in
  the log of the first.
\<close>

lemma end_to_end_next_second:
  "fst (second_account t2) = Inr ''ACC20240517093013'' \<and>
   fst (end_to_end t2) = Inr True \<and>
   accounts (snd (end_to_end t2)) =
     [''ACC20240517093012'' \<mapsto> 0, ''ACC20240517093013'' \<mapsto> 1] \<and>
   balance (objects (snd (end_to_end t2)) 0) = Finite 1000 \<and>
   balance (objects (snd (end_to_end t2)) 1) = Finite 300 \<and>
   map tx_type (transaction_history (objects (snd (end_to_end t2)) 0)) =
     [''deposit'', ''deposit'', ''withdrawal'', ''transfer_out'']"
  by (simp add: end_to_end_def second_account_def eval_create eval_calls
      after_withdrawal_accounts after_withdrawal_next_ref after_withdrawal_object
      alice_world_accounts alice_world_object)

subsection \<open>Opening an account\<close>

text \<open>
  C8, as the code has it. \<^verbatim>\<open>create_account\<close> raises a \<^verbatim>\<open>ValueError\<close> (the specification's
  \<open>InvalidInput\<close>) and leaves the world as it was, so that no account is added, when the
  holder name is empty, when the account type is empty, and when the initial balance is
  below 0. When the holder name and the account type are not empty and the initial balance
  is 0 or above, it returns the number of the new account, under which the dictionary
  then holds the new object with that balance. The account type is not compared with
  \<open>savings\<close> and \<open>current\<close>: the menu does that before it calls.
\<close>

theorem create_account_outcomes:
  "(holder_name = [] \<or> acc_type = [] \<longrightarrow>
      create_account w holder_name acc_type initial_balance pw now_id now_tx =
        (Inl (ValueError ''Account holder name and type are required''), w)) \<and>
   (holder_name \<noteq> [] \<and> acc_type \<noteq> [] \<and> float_lt initial_balance (Finite 0) \<longrightarrow>
      create_account w holder_name acc_type initial_balance pw now_id now_tx =
        (Inl (ValueError ''Initial balance cannot be negative''), w)) \<and>
   (holder_name \<noteq> [] \<and> acc_type \<noteq> [] \<and> float_le (Finite 0) initial_balance \<longrightarrow>
      fst (create_account w holder_name acc_type initial_balance pw now_id now_tx) =
        Inr (generate_account_number now_id) \<and>
      accounts (snd (create_account w holder_name acc_type initial_balance pw now_id now_tx)) =
        (accounts w)(generate_account_number now_id \<mapsto> next_ref w) \<and>
      objects (snd (create_account w holder_name acc_type initial_balance pw now_id now_tx))
          (next_ref w) =
        BankAccount_init holder_name acc_type initial_balance pw now_id now_tx \<and>
      account_number (BankAccount_init holder_name acc_type initial_balance pw now_id now_tx) =
        generate_account_number now_id \<and>
      balance (BankAccount_init holder_name acc_type initial_balance pw now_id now_tx) =
        initial_balance)"
  by (auto simp add: create_account_def Let_def save_data_def BankAccount_init_def
      record_transaction_def float_le_zero_not_lt)

theorem create_account_outcomes_witness:
  "create_account alice_world [] ''savings'' (Finite 10) None t2 t2 =
     (Inl (ValueError ''Account holder name and type are required''), alice_world) \<and>
   create_account alice_world ''Bob'' [] (Finite 10) None t2 t2 =
     (Inl (ValueError ''Account holder name and type are required''), alice_world) \<and>
   float_lt (Finite (- 1)) (Finite 0) \<and>
   create_account alice_world ''Bob'' ''current'' (Finite (- 1)) None t2 t2 =
     (Inl (ValueError ''Initial balance cannot be negative''), alice_world) \<and>
   float_le (Finite 0) (Finite 0) \<and>
   fst (create_account alice_world ''Bob'' ''current'' (Finite 0) (Some ''secret'') t2 t2) =
     Inr ''ACC20240517093013'' \<and>
   accounts (snd (create_account alice_world ''Bob'' ''current'' (Finite 0) (Some ''secret'')
     t2 t2)) =
     [''ACC20240517093012'' \<mapsto> 0, ''ACC20240517093013'' \<mapsto> 1] \<and>
   account_holder_name
     (objects (snd (create_account alice_world ''Bob'' ''current'' (Finite 0) (Some ''secret'')
        t2 t2)) 1) = ''Bob''"
  using
    create_account_outcomes [of "[]" "''savings''" alice_world "Finite 10" None t2 t2]
    create_account_outcomes [of "''Bob''" "[]" alice_world "Finite 10" None t2 t2]
    create_account_outcomes [of "''Bob''" "''current''" alice_world "Finite (- 1)" None t2 t2]
    create_account_outcomes [of "''Bob''" "''current''" alice_world "Finite 0"
      "Some ''secret''" t2 t2]
  by (simp add: alice_world_accounts alice_world_next_ref account_number_t2
      BankAccount_init_def Let_def float_gt_def)

text \<open>
  An account type that is neither \<open>savings\<close> nor \<open>current\<close> is accepted, and the account
  is added.
\<close>

theorem create_account_accepts_other_type:
  "''gold'' \<noteq> ''savings'' \<and> ''gold'' \<noteq> ''current'' \<and>
   fst (create_account fresh_system ''Alice'' ''gold'' (Finite 0) None t0 t0) =
     Inr ''ACC20240517093012'' \<and>
   accounts (snd (create_account fresh_system ''Alice'' ''gold'' (Finite 0) None t0 t0))
     ''ACC20240517093012'' = Some 0 \<and>
   account_type
     (objects (snd (create_account fresh_system ''Alice'' ''gold'' (Finite 0) None t0 t0)) 0) =
     ''gold''"
  by (simp add: eval_create)

text \<open>
  An initial balance of \<^verbatim>\<open>nan\<close> is neither below 0 nor above it: the account is opened with
  the balance \<^verbatim>\<open>nan\<close> and an empty log.
\<close>

lemma create_account_nan:
  "fst (create_account fresh_system ''Alice'' ''savings'' NaN None t0 t0) =
     Inr ''ACC20240517093012'' \<and>
   accounts (snd (create_account fresh_system ''Alice'' ''savings'' NaN None t0 t0))
     ''ACC20240517093012'' = Some 0 \<and>
   balance (objects (snd (create_account fresh_system ''Alice'' ''savings'' NaN None t0 t0)) 0) =
     NaN \<and>
   transaction_history
     (objects (snd (create_account fresh_system ''Alice'' ''savings'' NaN None t0 t0)) 0) = []"
  by (simp add: eval_create)

subsection \<open>Worlds reached from a system without accounts\<close>

lemma create_account_world:
  "snd (create_account w holder_name acc_type initial_balance pw now_id now_tx) = w \<or>
   (\<not> float_lt initial_balance (Finite 0) \<and>
    accounts (snd (create_account w holder_name acc_type initial_balance pw now_id now_tx)) =
      (accounts w)(generate_account_number now_id \<mapsto> next_ref w) \<and>
    objects (snd (create_account w holder_name acc_type initial_balance pw now_id now_tx)) =
      (objects w)(next_ref w :=
         BankAccount_init holder_name acc_type initial_balance pw now_id now_tx) \<and>
    next_ref (snd (create_account w holder_name acc_type initial_balance pw now_id now_tx)) =
      Suc (next_ref w))"
  by (simp add: create_account_def Let_def save_data_def BankAccount_init_def
      record_transaction_def)






lemma system_deposit_accounts:
  "accounts (snd (BankingSystem_deposit w number amount now)) = accounts w \<and>
   next_ref (snd (BankingSystem_deposit w number amount now)) = next_ref w"
  by (simp add: BankingSystem_deposit_def save_data_def split: sum.splits prod.splits)

lemma system_withdraw_accounts:
  "accounts (snd (BankingSystem_withdraw w number amount now)) = accounts w \<and>
   next_ref (snd (BankingSystem_withdraw w number amount now)) = next_ref w"
  by (simp add: BankingSystem_withdraw_def save_data_def split: sum.splits prod.splits)

lemma system_transfer_accounts:
  "accounts (snd (BankingSystem_transfer w from_number to_number amount now_out now_in)) =
     accounts w \<and>
   next_ref (snd (BankingSystem_transfer w from_number to_number amount now_out now_in)) =
     next_ref w"
  by (simp add: BankingSystem_transfer_def save_data_def
      split: sum.splits prod.splits option.splits)

text \<open>
  What a call of the system does to the store is nothing, or what the call of the account
  does.
\<close>

lemma system_deposit_objects:
  "objects (snd (BankingSystem_deposit w number amount now)) = objects w \<or>
   (\<exists>self. objects (snd (BankingSystem_deposit w number amount now)) =
      snd (BankAccount_deposit (objects w) self amount now))"
proof (cases "get_account w number None")
  case (Inl e)
  then show ?thesis by (simp add: BankingSystem_deposit_def)
next
  case (Inr self)
  then have "objects (snd (BankingSystem_deposit w number amount now)) =
      snd (BankAccount_deposit (objects w) self amount now)"
    by (simp add: BankingSystem_deposit_def save_data_def split: sum.splits prod.splits)
  then show ?thesis by blast
qed

lemma system_withdraw_objects:
  "objects (snd (BankingSystem_withdraw w number amount now)) = objects w \<or>
   (\<exists>self. objects (snd (BankingSystem_withdraw w number amount now)) =
      snd (BankAccount_withdraw (objects w) self amount now))"
proof (cases "get_account w number None")
  case (Inl e)
  then show ?thesis by (simp add: BankingSystem_withdraw_def)
next
  case (Inr self)
  then have "objects (snd (BankingSystem_withdraw w number amount now)) =
      snd (BankAccount_withdraw (objects w) self amount now)"
    by (simp add: BankingSystem_withdraw_def save_data_def split: sum.splits prod.splits)
  then show ?thesis by blast
qed

lemma system_transfer_resolved:
  assumes "accounts w from_number = Some a" and "accounts w to_number = Some b"
  shows "BankingSystem_transfer w from_number to_number amount now_out now_in =
    (case BankAccount_transfer (objects w) a amount b now_out now_in of
       (Inl e, h) \<Rightarrow> (Inl e, w\<lparr>objects := h\<rparr>)
     | (Inr result, h) \<Rightarrow> (Inr result, save_data (w\<lparr>objects := h\<rparr>)))"
  using assms by (simp add: BankingSystem_transfer_def)

lemma system_transfer_objects:
  "objects (snd (BankingSystem_transfer w from_number to_number amount now_out now_in)) =
     objects w \<or>
   (\<exists>self target.
      objects (snd (BankingSystem_transfer w from_number to_number amount now_out now_in)) =
        snd (BankAccount_transfer (objects w) self amount target now_out now_in))"
proof (cases "accounts w from_number")
  case None
  then show ?thesis by (simp add: BankingSystem_transfer_def)
next
  case (Some self)
  note src = this
  show ?thesis
  proof (cases "accounts w to_number")
    case None
    with src show ?thesis by (simp add: BankingSystem_transfer_def)
  next
    case (Some target)
    with src have
      "objects (snd (BankingSystem_transfer w from_number to_number amount now_out now_in)) =
        snd (BankAccount_transfer (objects w) self amount target now_out now_in)"
      by (simp add: system_transfer_resolved save_data_def split: sum.splits prod.splits)
    then show ?thesis by blast
  qed
qed






subsection \<open>Transfers\<close>








subsection \<open>Balances and logs\<close>

lemma consistent_init:
  assumes "initial_balance \<noteq> NaN" and "is_double initial_balance"
    and "\<not> float_lt initial_balance (Finite 0)"
  shows "consistent (BankAccount_init holder_name acc_type initial_balance pw now_id now_tx)"
proof (cases "float_gt initial_balance (Finite 0)")
  case True
  with assms show ?thesis
    by (simp add: consistent_def BankAccount_init_def Let_def record_transaction_def
        replay_def apply_record_def float_add_zero_double)
next
  case False
  with assms have "initial_balance = Finite 0"
    by (cases initial_balance) (simp_all add: float_gt_def)
  then show ?thesis
    by (simp add: consistent_def BankAccount_init_def Let_def float_gt_def replay_def)
qed

lemma consistent_deposit:
  "consistent (h r) \<Longrightarrow> consistent (snd (BankAccount_deposit h self amount now) r)"
  by (cases "r = self")
    (simp_all add: consistent_def BankAccount_deposit_def Let_def record_transaction_def
      replay_def apply_record_def)

lemma consistent_withdraw:
  "consistent (h r) \<Longrightarrow> consistent (snd (BankAccount_withdraw h self amount now) r)"
  by (cases "r = self")
    (simp_all add: consistent_def BankAccount_withdraw_def Let_def record_transaction_def
      replay_def apply_record_def)

lemma consistent_transfer:
  "consistent (h r) \<Longrightarrow>
   consistent (snd (BankAccount_transfer h self amount target now_out now_in) r)"
  by (cases "r = self"; cases "r = target")
    (simp_all add: consistent_def BankAccount_transfer_def Let_def record_transaction_def
      replay_def apply_record_def)

lemma ledger_consistent_perform:
  assumes "ledger_consistent w" and "opens_with_number c"
  shows "ledger_consistent (perform w c)"
proof (cases c)
  case (Create holder_name acc_type initial_balance pw now_id now_tx)
  from create_account_world [of w holder_name acc_type initial_balance pw now_id now_tx]
  show ?thesis
  proof
    assume "snd (create_account w holder_name acc_type initial_balance pw now_id now_tx) = w"
    with assms Create show ?thesis by simp
  next
    assume new: "\<not> float_lt initial_balance (Finite 0) \<and>
      accounts (snd (create_account w holder_name acc_type initial_balance pw now_id now_tx)) =
        (accounts w)(generate_account_number now_id \<mapsto> next_ref w) \<and>
      objects (snd (create_account w holder_name acc_type initial_balance pw now_id now_tx)) =
        (objects w)(next_ref w :=
           BankAccount_init holder_name acc_type initial_balance pw now_id now_tx) \<and>
      next_ref (snd (create_account w holder_name acc_type initial_balance pw now_id now_tx)) =
        Suc (next_ref w)"
    with assms Create have "consistent
        (BankAccount_init holder_name acc_type initial_balance pw now_id now_tx)"
      by (simp add: consistent_init)
    with assms new Create show ?thesis
      by (auto simp add: ledger_consistent_def)
  qed
next
  case (Deposit number amount now)
  from system_deposit_objects [of w number amount now] assms Deposit show ?thesis
    by (auto simp add: ledger_consistent_def system_deposit_accounts consistent_deposit)
next
  case (Withdraw number amount now)
  from system_withdraw_objects [of w number amount now] assms Withdraw show ?thesis
    by (auto simp add: ledger_consistent_def system_withdraw_accounts consistent_withdraw)
next
  case (Transfer from_number to_number amount now_out now_in)
  from system_transfer_objects [of w from_number to_number amount now_out now_in]
    assms Transfer
  show ?thesis
    by (auto simp add: ledger_consistent_def system_transfer_accounts consistent_transfer)
qed

lemma ledger_consistent_run:
  "ledger_consistent w \<Longrightarrow> list_all opens_with_number calls \<Longrightarrow>
   ledger_consistent (run w calls)"
  by (induction calls arbitrary: w) (simp_all add: ledger_consistent_perform)

lemma ledger_consistent_fresh: "ledger_consistent fresh_system"
  by (simp add: ledger_consistent_def fresh_system_def)

lemma deposit_accepted:
  "\<not> float_le amount (Finite 0) \<Longrightarrow>
   BankAccount_deposit h self amount now =
     (Inr True,
      h(self := (h self)\<lparr>balance := float_add (balance (h self)) amount,
                   transaction_history := transaction_history (h self) @
                     [\<lparr>tx_date = now, tx_type = ''deposit'', tx_amount = amount,
                       balance_after = float_add (balance (h self)) amount,
                       other_account = None\<rparr>]\<rparr>))"
  by (simp add: BankAccount_deposit_def Let_def record_transaction_def truthy_def)

lemma withdraw_accepted:
  "\<not> float_le amount (Finite 0) \<Longrightarrow> \<not> float_gt amount (balance (h self)) \<Longrightarrow>
   BankAccount_withdraw h self amount now =
     (Inr True,
      h(self := (h self)\<lparr>balance := float_sub (balance (h self)) amount,
                   transaction_history := transaction_history (h self) @
                     [\<lparr>tx_date = now, tx_type = ''withdrawal'', tx_amount = amount,
                       balance_after = float_sub (balance (h self)) amount,
                       other_account = None\<rparr>]\<rparr>))"
  by (simp add: BankAccount_withdraw_def Let_def record_transaction_def truthy_def)

lemma account_run_applied:
  "account_run h self cs = Inr h' \<Longrightarrow> balance (h' self) = applied (balance (h self)) cs"
proof (induction cs arbitrary: h)
  case Nil
  then show ?case by (simp add: applied_def)
next
  case (Cons c cs)
  show ?case
  proof (cases c)
    case (DepositCall amount now)
    with Cons.prems have pos: "\<not> float_le amount (Finite 0)"
      by (simp add: BankAccount_deposit_def split: if_splits)
    from Cons.prems DepositCall have "account_run
        (h(self := (h self)\<lparr>balance := float_add (balance (h self)) amount,
                   transaction_history := transaction_history (h self) @
                     [\<lparr>tx_date = now, tx_type = ''deposit'', tx_amount = amount,
                       balance_after = float_add (balance (h self)) amount,
                       other_account = None\<rparr>]\<rparr>)) self cs = Inr h'"
      using pos by (simp add: deposit_accepted)
    from Cons.IH [OF this] DepositCall show ?thesis
      by (simp add: applied_def)
  next
    case (WithdrawCall amount now)
    with Cons.prems have ok: "\<not> float_le amount (Finite 0)"
      "\<not> float_gt amount (balance (h self))"
      by (simp_all add: BankAccount_withdraw_def split: if_splits)
    from Cons.prems WithdrawCall have "account_run
        (h(self := (h self)\<lparr>balance := float_sub (balance (h self)) amount,
                   transaction_history := transaction_history (h self) @
                     [\<lparr>tx_date = now, tx_type = ''withdrawal'', tx_amount = amount,
                       balance_after = float_sub (balance (h self)) amount,
                       other_account = None\<rparr>]\<rparr>)) self cs = Inr h'"
      using ok by (simp add: withdraw_accepted)
    from Cons.IH [OF this] WithdrawCall show ?thesis
      by (simp add: applied_def)
  qed
qed

lemma is_double_values:
  "is_double (Finite 0)" "is_double (Finite 1000)" "is_double (Finite 10000000000000000)"
  by (simp_all add: is_double_def round_double_values round_double_large)

lemma scenario_accounts:
  "accounts (run fresh_system scenario_calls) =
     [''ACC20240517093012'' \<mapsto> 0, ''ACC20240517093013'' \<mapsto> 1]"
  by (simp add: scenario_calls_def eval_create eval_calls)

lemma scenario_alice:
  "objects (run fresh_system scenario_calls) 0 =
     \<lparr>account_holder_name = ''Alice'', account_number = ''ACC20240517093012'',
      account_type = ''savings'', balance = Finite 1000,
      transaction_history =
        [\<lparr>tx_date = t0, tx_type = ''deposit'', tx_amount = Finite 1000,
          balance_after = Finite 1000, other_account = None\<rparr>,
         \<lparr>tx_date = t0, tx_type = ''deposit'', tx_amount = Finite 500,
          balance_after = Finite 1500, other_account = None\<rparr>,
         \<lparr>tx_date = t1, tx_type = ''withdrawal'', tx_amount = Finite 200,
          balance_after = Finite 1300, other_account = None\<rparr>,
         \<lparr>tx_date = t2, tx_type = ''transfer_out'', tx_amount = Finite 300,
          balance_after = Finite 1000, other_account = Some ''ACC20240517093013''\<rparr>],
      password = None\<rparr>"
  by (simp add: scenario_calls_def eval_create eval_calls)

lemma scenario_opens_with_number: "list_all opens_with_number scenario_calls"
  by (simp add: scenario_calls_def is_double_values)

lemma large_world_object:
  "objects large_world 0 =
     \<lparr>account_holder_name = ''Alice'', account_number = ''ACC20240517093012'',
      account_type = ''savings'', balance = Finite 10000000000000000,
      transaction_history =
        [\<lparr>tx_date = t0, tx_type = ''deposit'', tx_amount = Finite 10000000000000000,
          balance_after = Finite 10000000000000000, other_account = None\<rparr>],
      password = None\<rparr>"
  by (simp add: large_world_def eval_create)

lemma nan_world_object:
  "objects nan_world 0 =
     \<lparr>account_holder_name = ''Alice'', account_number = ''ACC20240517093012'',
      account_type = ''savings'', balance = NaN, transaction_history = [],
      password = None\<rparr>"
  by (simp add: nan_world_def eval_create)

text \<open>
  C2, as the code has it. Start from a system in which every account of the dictionary
  has the balance that its log replays to (the system without accounts is one), and make
  any sequence of calls that open accounts, deposit, withdraw and transfer, in which no
  account is opened with \<^verbatim>\<open>nan\<close>. Then every account of the dictionary has the balance that
  its log replays to: the float that results from applying the signed amounts of its
  records in the order of the log, each step rounded as the program rounds it. And when a
  sequence of deposits and withdrawals on one account has run without raising, the
  balance is the balance before the sequence with the deposits added and the withdrawals
  subtracted one after the other, in the order of the calls.
\<close>

theorem balance_is_replayed_log:
  "ledger_consistent fresh_system \<and>
   (ledger_consistent w \<and> list_all opens_with_number calls \<and>
    accounts (run w calls) number = Some r \<longrightarrow>
      balance (objects (run w calls) r) =
        replay (transaction_history (objects (run w calls) r))) \<and>
   (account_run h self cs = Inr h' \<longrightarrow> balance (h' self) = applied (balance (h self)) cs)"
proof (intro conjI impI)
  show "ledger_consistent fresh_system"
    by (rule ledger_consistent_fresh)
next
  assume a: "ledger_consistent w \<and> list_all opens_with_number calls \<and>
    accounts (run w calls) number = Some r"
  then have "ledger_consistent (run w calls)"
    by (simp add: ledger_consistent_run)
  with a have "consistent (objects (run w calls) r)"
    by (auto simp add: ledger_consistent_def)
  then show "balance (objects (run w calls) r) =
      replay (transaction_history (objects (run w calls) r))"
    by (simp add: consistent_def)
next
  assume "account_run h self cs = Inr h'"
  then show "balance (h' self) = applied (balance (h self)) cs"
    by (rule account_run_applied)
qed

theorem balance_is_replayed_log_witness:
  "ledger_consistent fresh_system \<and>
   list_all opens_with_number scenario_calls \<and>
   accounts (run fresh_system scenario_calls) ''ACC20240517093012'' = Some 0 \<and>
   balance (objects (run fresh_system scenario_calls) 0) = Finite 1000 \<and>
   replay (transaction_history (objects (run fresh_system scenario_calls) 0)) = Finite 1000 \<and>
   (\<exists>h'. account_run (objects alice_world) 0
            [DepositCall (Finite 500) t0, WithdrawCall (Finite 200) t1,
             DepositCall (Finite 50) t2] = Inr h' \<and>
         balance (h' 0) = Finite 1350 \<and>
         applied (balance (objects alice_world 0))
           [DepositCall (Finite 500) t0, WithdrawCall (Finite 200) t1,
            DepositCall (Finite 50) t2] = Finite 1350)"
proof -
  obtain h' where run: "account_run (objects alice_world) 0
      [DepositCall (Finite 500) t0, WithdrawCall (Finite 200) t1,
       DepositCall (Finite 50) t2] = Inr h'"
    by (simp add: BankAccount_deposit_def BankAccount_withdraw_def Let_def alice_world_object
        record_transaction_def truthy_def float_gt_def float_sub_def round_double_values)
  note fact = balance_is_replayed_log [of fresh_system scenario_calls "''ACC20240517093012''" 0
      "objects alice_world" 0
      "[DepositCall (Finite 500) t0, WithdrawCall (Finite 200) t1, DepositCall (Finite 50) t2]"
      h']
  have applied: "applied (balance (objects alice_world 0))
      [DepositCall (Finite 500) t0, WithdrawCall (Finite 200) t1, DepositCall (Finite 50) t2] =
      Finite 1350"
    by (simp add: applied_def alice_world_object float_sub_def round_double_values)
  from fact have "ledger_consistent fresh_system"
    by simp
  moreover have "list_all opens_with_number scenario_calls"
    by (rule scenario_opens_with_number)
  moreover have "accounts (run fresh_system scenario_calls) ''ACC20240517093012'' = Some 0"
    by (simp add: scenario_accounts)
  moreover have "balance (objects (run fresh_system scenario_calls) 0) = Finite 1000"
    by (simp add: scenario_alice)
  moreover from fact calculation have
    "replay (transaction_history (objects (run fresh_system scenario_calls) 0)) = Finite 1000"
    by simp
  moreover from fact run applied have "balance (h' 0) = Finite 1350"
    by simp
  ultimately show ?thesis
    using run applied by blast
qed

text \<open>
  Two accounts for which the claim fails as it was stated. The account opened with \<^verbatim>\<open>nan\<close>
  has the balance \<^verbatim>\<open>nan\<close> and an empty log, which replays to 0. The account opened with
  \<^verbatim>\<open>1e16\<close> has that balance still after two deposits of 1, each sum rounding back to
  \<^verbatim>\<open>1e16\<close>, while the initial balance plus the sum of the deposits minus the sum of the
  withdrawals is \<^verbatim>\<open>1e16 + 2\<close>.
\<close>

theorem balance_not_sum_of_amounts:
  "accounts nan_world ''ACC20240517093012'' = Some 0 \<and>
   balance (objects nan_world 0) = NaN \<and>
   replay (transaction_history (objects nan_world 0)) = Finite 0 \<and>
   balance (objects large_world 0) = Finite 10000000000000000 \<and>
   (\<exists>h'. account_run (objects large_world) 0 unit_deposits = Inr h' \<and>
         balance (h' 0) = Finite 10000000000000000) \<and>
   float_sub (float_add (balance (objects large_world 0)) (deposited unit_deposits))
     (withdrawn unit_deposits) = Finite 10000000000000002"
  by (simp add: nan_world_object nan_world_def large_world_object unit_deposits_def
      BankAccount_deposit_def Let_def record_transaction_def truthy_def float_sub_def
      round_double_values round_double_large replay_def eval_create)

end
